theory Spec2Isabelle
  imports Complex_Main "HOL-Library.Monad_Syntax" "HOL-Library.Log_Nat"
begin

text \<open>
  The repository holds the gateway in three versions: \<open>server/routes.ts\<close>, and two
  Express servers in \<open>src/unnamed/part_001\<close>, an earlier one (its lines 1 to 100) and
  a later one (from line 101), here the earlier bridge server and the bridge server.  The
  bridge server alone has the policy simulator; the two bridge servers alone have the API
  key guard.
\<close>

section \<open>JavaScript values\<close>

text \<open>
  A JavaScript Number other than NaN: a finite value or one of the two infinities.
  \<open>JSON.parse\<close> never yields NaN (an overflowing literal such as \<open>1e999\<close> yields
  Infinity), so the numbers of a request body are of this type; where a conversion can
  yield NaN, the result is a \<open>num option\<close> and \<open>None\<close> is NaN.  The finite values
  are rationals, of which the doubles are a subset; \<open>+0\<close> and \<open>-0\<close> are one
  value (no handler tells them apart).
\<close>

datatype num = Fin rat | PInf | NInf

text \<open>
  The values the handlers compute with: those of a parsed JSON body (\<open>null\<close>,
  booleans, numbers, strings, arrays, objects), \<open>undefined\<close>, and NaN, which no body
  holds but a conversion can yield.  Strings are lists of 8-bit characters; an object is
  the list of its properties.
\<close>

datatype jsval =
    JUndefined
  | JNull
  | JBool bool
  | JNum num
  | JNaN
  | JStr string
  | JArr "jsval list"
  | JObj "(string \<times> jsval) list"

text \<open>The relation \<open>a < b\<close> of two Numbers.\<close>

fun num_less :: "num \<Rightarrow> num \<Rightarrow> bool" where
  "num_less (Fin a) (Fin b) = (a < b)"
| "num_less (Fin a) PInf = True"
| "num_less (Fin a) NInf = False"
| "num_less PInf y = False"
| "num_less NInf NInf = False"
| "num_less NInf y = True"

text \<open>Unary minus.\<close>

fun num_neg :: "num \<Rightarrow> num" where
  "num_neg (Fin a) = Fin (- a)"
| "num_neg PInf = NInf"
| "num_neg NInf = PInf"

text \<open>Truthiness, as tested by \<open>!v\<close>, \<open>v || d\<close>, \<open>a && b\<close> and \<open>if (v)\<close>.\<close>

fun truthy :: "jsval \<Rightarrow> bool" where
  "truthy JUndefined = False"
| "truthy JNull = False"
| "truthy (JBool b) = b"
| "truthy (JNum n) = (n \<noteq> Fin 0)"
| "truthy JNaN = False"
| "truthy (JStr s) = (s \<noteq> [])"
| "truthy (JArr xs) = True"
| "truthy (JObj kvs) = True"

fun nullish :: "jsval \<Rightarrow> bool" where
  "nullish JUndefined = True"
| "nullish JNull = True"
| "nullish v = False"

text \<open>
  \<open>v.k\<close> for a value \<open>v\<close> that is neither \<open>null\<close> nor \<open>undefined\<close>, and a key
  \<open>k\<close> among those the handlers read (\<open>id\<close>, \<open>type\<close>, \<open>since\<close>, ...): none of them
  is a property of a string, number, boolean or array, so only an object can hold one.
\<close>

fun property :: "jsval \<Rightarrow> string \<Rightarrow> jsval" where
  "property (JObj kvs) k = (case map_of kvs k of Some v \<Rightarrow> v | None \<Rightarrow> JUndefined)"
| "property v k = JUndefined"

text \<open>\<open>v.k\<close> for any value: reading a property of \<open>null\<close> or \<open>undefined\<close> throws
  a TypeError, which is \<open>None\<close>.\<close>

definition member :: "jsval \<Rightarrow> string \<Rightarrow> jsval option" where
  "member v k = (if nullish v then None else Some (property v k))"

text \<open>\<open>req.body || {}\<close>\<close>

definition or_empty :: "jsval \<Rightarrow> jsval" where
  "or_empty body = (if truthy body then body else JObj [])"

text \<open>A destructuring default \<open>{ k = d }\<close>: taken when the property is \<open>undefined\<close>.\<close>

definition default_to :: "jsval \<Rightarrow> jsval \<Rightarrow> jsval" where
  "default_to d v = (if v = JUndefined then d else v)"

text \<open>\<open>a || b\<close>\<close>

definition or_else :: "jsval \<Rightarrow> jsval \<Rightarrow> jsval" where
  "or_else a b = (if truthy a then a else b)"

section \<open>Arithmetic on Numbers\<close>

text \<open>
  The product of two doubles is the exact product rounded to the nearest double, ties to
  the even significand (IEEE 754 binary64: 53 significant bits, least exponent -1022,
  overflow to infinity from \<open>2 ^ 1024\<close>).
\<close>

definition pow2 :: "int \<Rightarrow> rat" where
  "pow2 k = (if 0 \<le> k then 2 ^ nat k else 1 / 2 ^ nat (- k))"

text \<open>For \<open>a > 0\<close>, the exponent \<open>e\<close> with \<open>2 ^ e \<le> a < 2 ^ (e + 1)\<close>.\<close>

definition ilog2 :: "rat \<Rightarrow> int" where
  "ilog2 a = (if 1 \<le> a then bitlen \<lfloor>a\<rfloor> - 1 else - bitlen (\<lceil>1 / a\<rceil> - 1))"

text \<open>The nearest integer, a tie going to the even one.\<close>

definition round_even :: "rat \<Rightarrow> int" where
  "round_even r =
     (let f = \<lfloor>r\<rfloor>; d = r - of_int f
      in if d < 1 / 2 then f else if 1 / 2 < d then f + 1 else if even f then f else f + 1)"

text \<open>The spacing of the doubles around \<open>a > 0\<close>.\<close>

definition ulp :: "rat \<Rightarrow> rat" where
  "ulp a = pow2 (max (ilog2 a) (- 1022) - 52)"

text \<open>The double nearest to \<open>q\<close>.\<close>

definition fl :: "rat \<Rightarrow> num" where
  "fl q =
     (if q = 0 then Fin 0
      else
        let a = \<bar>q\<bar>;
            r = of_int (round_even (a / ulp a)) * ulp a
        in if pow2 1024 \<le> r then (if 0 < q then PInf else NInf)
           else Fin (if 0 < q then r else - r))"

fun num_sgn :: "num \<Rightarrow> int" where
  "num_sgn (Fin a) = (if a = 0 then 0 else if 0 < a then 1 else - 1)"
| "num_sgn PInf = 1"
| "num_sgn NInf = - 1"

text \<open>\<open>x * y\<close>; \<open>None\<close> is NaN (zero times an infinity).\<close>

fun num_times :: "num \<Rightarrow> num \<Rightarrow> num option" where
  "num_times (Fin a) (Fin b) = Some (fl (a * b))"
| "num_times x y =
     (let s = num_sgn x * num_sgn y
      in if s = 0 then None else if 0 < s then Some PInf else Some NInf)"

text \<open>
  \<open>Math.round\<close>: the integer closest to the argument, and of two equally close ones
  the one closer to positive infinity.
\<close>

fun Math_round :: "num \<Rightarrow> num" where
  "Math_round (Fin a) = Fin (of_int \<lfloor>a + 1 / 2\<rfloor>)"
| "Math_round PInf = PInf"
| "Math_round NInf = NInf"

text \<open>A Number that may be NaN, as a value.\<close>

fun number :: "num option \<Rightarrow> jsval" where
  "number None = JNaN"
| "number (Some n) = JNum n"

section \<open>The host: clock, conversions of the language, the remote Graph API\<close>

datatype http_call =
  Call (meth: string) (url: string) (params: "(string \<times> jsval) list") (authorization: string)

text \<open>
  What the handlers take from their surroundings.  \<open>graph\<close> is the outcome of an axios
  call: \<open>Inr data\<close> when it resolves, \<open>Inl v\<close> when it throws an error \<open>e\<close>, with
  \<open>v\<close> the value of \<open>e?.response?.data || e.message\<close>.  \<open>conversion_message\<close> is
  the \<open>message\<close> of the TypeError that the engine throws when an object has no
  primitive value.
\<close>

record host =
  now_iso :: string
  number_to_string :: "rat \<Rightarrow> string"
  string_to_number :: "string \<Rightarrow> num option"
  JSON_stringify :: "jsval \<Rightarrow> string"
  conversion_message :: string
  graph :: "http_call \<Rightarrow> jsval + jsval"

text \<open>What a conversion throws.\<close>

datatype thrown = TypeError

fun join_comma :: "string list \<Rightarrow> string" where
  "join_comma [] = []"
| "join_comma [s] = s"
| "join_comma (s # t # ss) = s @ '','' @ join_comma (t # ss)"

text \<open>The results of a list of conversions, or the first throw among them.\<close>

fun all_or_thrown :: "(thrown + 'a) list \<Rightarrow> thrown + 'a list" where
  "all_or_thrown [] = Inr []"
| "all_or_thrown (Inl t # rs) = Inl t"
| "all_or_thrown (Inr x # rs) =
     (case all_or_thrown rs of Inl t \<Rightarrow> Inl t | Inr xs \<Rightarrow> Inr (x # xs))"

text \<open>
  String conversion, as in a template literal \<open>`${v}`\<close>; \<open>Inl TypeError\<close> when it
  throws.  An object takes its string from its \<open>toString\<close> method.  An object parsed
  from JSON inherits the one that answers \<open>[object Object]\<close>, unless it has a property
  \<open>toString\<close> of its own: that is no function, \<open>valueOf\<close> yields no primitive
  either, and the conversion throws.  An array joins the strings of its entries with
  commas, \<open>null\<close> counting as the empty string.
\<close>

fun ToString :: "host \<Rightarrow> jsval \<Rightarrow> thrown + string" where
  "ToString h JUndefined = Inr ''undefined''"
| "ToString h JNull = Inr ''null''"
| "ToString h (JBool b) = Inr (if b then ''true'' else ''false'')"
| "ToString h (JNum (Fin q)) = Inr (number_to_string h q)"
| "ToString h (JNum PInf) = Inr ''Infinity''"
| "ToString h (JNum NInf) = Inr ''-Infinity''"
| "ToString h JNaN = Inr ''NaN''"
| "ToString h (JStr s) = Inr s"
| "ToString h (JArr xs) =
     (case all_or_thrown (map (\<lambda>x. if nullish x then Inr [] else ToString h x) xs) of
        Inl t \<Rightarrow> Inl t
      | Inr ss \<Rightarrow> Inr (join_comma ss))"
| "ToString h (JObj kvs) =
     (if map_of kvs ''toString'' = None then Inr ''[object Object]'' else Inl TypeError)"

text \<open>\<open>Number(v)\<close>: \<open>Inr None\<close> is NaN, \<open>Inl TypeError\<close> a throw.  An array or
  object is converted through its string.\<close>

fun ToNumber :: "host \<Rightarrow> jsval \<Rightarrow> thrown + num option" where
  "ToNumber h JUndefined = Inr None"
| "ToNumber h JNull = Inr (Some (Fin 0))"
| "ToNumber h (JBool b) = Inr (Some (Fin (if b then 1 else 0)))"
| "ToNumber h (JNum n) = Inr (Some n)"
| "ToNumber h JNaN = Inr None"
| "ToNumber h (JStr s) = Inr (string_to_number h s)"
| "ToNumber h v =
     (case ToString h v of Inl t \<Rightarrow> Inl t | Inr s \<Rightarrow> Inr (string_to_number h s))"

text \<open>\<open>`${v}`\<close> for a value of the configuration, which is a string or
  \<open>undefined\<close>.\<close>

fun config_text :: "jsval \<Rightarrow> string" where
  "config_text (JStr s) = s"
| "config_text v = ''undefined''"

text \<open>A string or \<open>undefined\<close>, as a value.\<close>

fun str_or_undefined :: "string option \<Rightarrow> jsval" where
  "str_or_undefined None = JUndefined"
| "str_or_undefined (Some s) = JStr s"

text \<open>\<open>process.env\<close>: the variables that are set, with their values.\<close>

type_synonym process_env = "(string \<times> string) list"

definition getenv :: "process_env \<Rightarrow> string \<Rightarrow> string option" where
  "getenv env k = map_of env k"

text \<open>\<open>s.trim()\<close>: white space and line terminators are taken from both ends (those
  among the 8-bit characters: tab, line feed, vertical tab, form feed, carriage return,
  space, no-break space).\<close>

definition is_space :: "char \<Rightarrow> bool" where
  "is_space c = (c \<in> set [CHR 0x09, CHR 0x0A, CHR 0x0B, CHR 0x0C, CHR 0x0D, CHR 0x20, CHR 0xA0])"

definition trim :: "string \<Rightarrow> string" where
  "trim s = rev (dropWhile is_space (rev (dropWhile is_space s)))"

text \<open>\<open>res.status(s).json(v)\<close>; \<open>res.json(v)\<close> answers with status 200.\<close>

datatype response = Response (status: nat) (payload: jsval)

section \<open>The policy simulator (bridge server, \<open>POST /api/simulate\<close>)\<close>

record policy =
  maxIncreasePct :: num
  maxDecreasePct :: num
  minDailyBudgetEur :: num
  allowStatuses :: "string list"

definition DEFAULT_POLICY :: policy where
  "DEFAULT_POLICY = \<lparr> maxIncreasePct = Fin 30, maxDecreasePct = Fin 30,
     minDailyBudgetEur = Fin 1, allowStatuses = [''PAUSED'', ''ACTIVE'', ''ARCHIVED''] \<rparr>"

text \<open>\<open>set.has(v)\<close> on a Set of strings: only an equal string is a member.\<close>

fun has :: "string list \<Rightarrow> jsval \<Rightarrow> bool" where
  "has xs (JStr s) = (s \<in> set xs)"
| "has xs v = False"

text \<open>\<open>typeof v === "number" && test v\<close>, for a test made of the comparisons \<open><\<close> and
  \<open>>\<close>, which are false of NaN.\<close>

fun number_and :: "jsval \<Rightarrow> (num \<Rightarrow> bool) \<Rightarrow> bool" where
  "number_and (JNum n) test = test n"
| "number_and v test = False"

definition outcome :: "jsval \<Rightarrow> jsval \<Rightarrow> bool \<Rightarrow> string \<Rightarrow> jsval" where
  "outcome pid ty ok why =
     JObj [(''id'', pid), (''type'', ty), (''approved'', JBool ok), (''reason'', JStr why)]"

text \<open>
  The two reasons built by template literals, with the policy's numbers interpolated
  (\<open>1\<close> and \<open>30\<close> print as written); the accented i of the source is the character
  of code 0xED.
\<close>

definition reason_min :: string where
  "reason_min = ''Presupuesto < m'' @ [CHR 0xED] @ ''nimo (1 EUR)''"

definition reason_delta :: string where
  "reason_delta = ''delta_pct fuera de umbral (+30/-30)''"

definition reason_action :: string where
  "reason_action = ''Acci'' @ [CHR 0xF3] @ ''n no soportada''"

text \<open>
  The callback of \<open>proposals.map\<close>.  \<open>None\<close> is the TypeError thrown by \<open>p.id\<close> when
  \<open>p\<close> is \<open>null\<close>.
\<close>

definition proposal_outcome :: "jsval \<Rightarrow> jsval option" where
  "proposal_outcome p = do {
     pid \<leftarrow> member p ''id'';
     ty \<leftarrow> member p ''type'';
     if ty = JStr ''budget_change'' then do {
       delta_pct \<leftarrow> member p ''delta_pct'';
       new_daily_budget_eur \<leftarrow> member p ''new_daily_budget_eur'';
       if number_and new_daily_budget_eur
            (\<lambda>n. num_less n (minDailyBudgetEur DEFAULT_POLICY))
       then Some (outcome pid ty False reason_min)
       else if number_and delta_pct
            (\<lambda>d. num_less (maxIncreasePct DEFAULT_POLICY) d \<or>
                  num_less d (num_neg (maxDecreasePct DEFAULT_POLICY)))
       then Some (outcome pid ty False reason_delta)
       else Some (outcome pid ty True ''OK'')
     }
     else if ty = JStr ''status_change'' then do {
       new_status \<leftarrow> member p ''new_status'';
       if \<not> has (allowStatuses DEFAULT_POLICY) new_status
       then Some (outcome pid ty False ''Estado no permitido'')
       else Some (outcome pid ty True ''OK'')
     }
     else Some (outcome pid ty False ''Tipo no soportado'')
   }"

text \<open>\<open>xs.map(f)\<close> for a callback that may throw: the first throw ends the loop.\<close>

fun map_throwing :: "('a \<Rightarrow> 'b option) \<Rightarrow> 'a list \<Rightarrow> 'b list option" where
  "map_throwing f [] = Some []"
| "map_throwing f (x # xs) =
     (case f x of None \<Rightarrow> None
      | Some y \<Rightarrow> (case map_throwing f xs of None \<Rightarrow> None | Some ys \<Rightarrow> Some (y # ys)))"

definition policy_snapshot :: jsval where
  "policy_snapshot = JObj
     [(''maxIncreasePct'', JNum (maxIncreasePct DEFAULT_POLICY)),
      (''maxDecreasePct'', JNum (maxDecreasePct DEFAULT_POLICY)),
      (''minDailyBudgetEur'', JNum (minDailyBudgetEur DEFAULT_POLICY)),
      (''allowStatuses'', JArr (map JStr (allowStatuses DEFAULT_POLICY)))]"

definition simulation :: "host \<Rightarrow> jsval \<Rightarrow> jsval list \<Rightarrow> response" where
  "simulation h context results = Response 200 (JObj
     [(''mode'', JStr ''simulation''),
      (''contextEcho'', context),
      (''policy'', policy_snapshot),
      (''results'', JArr results),
      (''timestamp'', JStr (now_iso h))])"

text \<open>The body of the handler's \<open>try\<close>; \<open>None\<close> when it throws.  Both reasons of the
  \<open>ad_status\<close> action interpolate \<open>payload.status\<close>; an allowed status is a string,
  so only the other reason can throw.\<close>

definition simulate_try :: "host \<Rightarrow> jsval \<Rightarrow> response option" where
  "simulate_try h body =
     (let b = or_empty body;
          context = default_to (JObj []) (property b ''context'');
          proposals = property b ''proposals'';
          action = property b ''action'';
          payload = property b ''payload''
      in case proposals of
           JArr ps \<Rightarrow> map_option (simulation h context) (map_throwing proposal_outcome ps)
         | _ \<Rightarrow>
           if truthy action \<and> truthy payload then
             if action = JStr ''ad_status'' then
               (let st = property payload ''status'' in
                case ToString h st of
                  Inl t \<Rightarrow> None
                | Inr s \<Rightarrow>
                  Some (simulation h context
                    [JObj [(''type'', JStr ''status_change''), (''payload'', payload),
                       (''approved'', JBool (has (allowStatuses DEFAULT_POLICY) st)),
                       (''reason'', JStr (if has (allowStatuses DEFAULT_POLICY) st
                          then ''Status change to '' @ s @ '' is allowed.''
                          else ''Status '' @ s @ '' not allowed.''))]]))
             else Some (simulation h context
                  [JObj [(''type'', action), (''approved'', JBool False),
                     (''reason'', JStr reason_action)]])
           else Some (Response 400 (JObj [(''error'', JStr ''Falta proposals[] o action+payload'')])))"

text \<open>The handler: an exception thrown in the \<open>try\<close> is answered with status 500.\<close>

definition simulate :: "host \<Rightarrow> jsval \<Rightarrow> response" where
  "simulate h body =
     (case simulate_try h body of
        Some r \<Rightarrow> r
      | None \<Rightarrow> Response 500 (JObj [(''error'', JStr ''Error simulando propuestas'')]))"

section \<open>The gateway (bridge server)\<close>

subsection \<open>Configuration\<close>

text \<open>\<open>process.env.K?.trim()\<close>\<close>

definition trimmed :: "process_env \<Rightarrow> string \<Rightarrow> jsval" where
  "trimmed env k = str_or_undefined (map_option trim (getenv env k))"

definition GRAPH_VERSION :: "process_env \<Rightarrow> jsval" where
  "GRAPH_VERSION env = or_else (trimmed env ''META_GRAPH_VERSION'') (JStr ''v23.0'')"

definition AD_ACCOUNT_ID :: "process_env \<Rightarrow> jsval" where
  "AD_ACCOUNT_ID env = trimmed env ''META_AD_ACCOUNT_ID''"

definition TOKEN :: "process_env \<Rightarrow> jsval" where
  "TOKEN env = or_else (trimmed env ''META_ACCESS_TOKEN'') (trimmed env ''META_SYSTEM_USER_TOKEN'')"

definition BRIDGE_API_KEY :: "process_env \<Rightarrow> jsval" where
  "BRIDGE_API_KEY env = trimmed env ''BRIDGE_API_KEY''"

definition hasEssentialEnv :: "process_env \<Rightarrow> bool" where
  "hasEssentialEnv env = (truthy (AD_ACCOUNT_ID env) \<and> truthy (TOKEN env))"

definition BASE :: "process_env \<Rightarrow> string \<Rightarrow> string" where
  "BASE env p = ''https://graph.facebook.com/'' @ config_text (GRAPH_VERSION env) @ ''/'' @ p"

definition authHeader :: "process_env \<Rightarrow> string" where
  "authHeader env = ''Bearer '' @ config_text (TOKEN env)"

subsection \<open>The API key guard\<close>

text \<open>What a middleware reads of a request; \<open>x_api_key\<close> is \<open>req.header("X-API-Key")\<close>.\<close>

record request =
  req_method :: string
  req_path :: string
  x_api_key :: "string option"

text \<open>A middleware calls \<open>next()\<close> or answers.\<close>

datatype verdict = Next | Reply response

definition OPEN_PATHS :: "string list" where
  "OPEN_PATHS = [''/api/health'', ''/healthz'']"

definition unauthorized :: response where
  "unauthorized = Response 401 (JObj [(''error'', JStr ''Unauthorized'')])"

definition api_key_guard :: "process_env \<Rightarrow> request \<Rightarrow> verdict" where
  "api_key_guard env req =
     (if req_path req \<in> set OPEN_PATHS then Next
      else if req_method req = ''OPTIONS'' then Next
      else if \<not> truthy (BRIDGE_API_KEY env) then Next
      else
        let key = str_or_undefined (x_api_key req)
        in if truthy key \<and> key = BRIDGE_API_KEY env then Next
           else Reply unauthorized)"

text \<open>
  \<open>app.use(cors()); app.use(express.json()); app.use(guard)\<close>: the middlewares run in
  the order of their mounting, and the first that answers ends the request.  The two
  library middlewares are parameters, each by its verdict on a request (\<open>cors()\<close>
  answers a preflight itself, \<open>express.json()\<close> a body that does not parse).
\<close>

fun and_then :: "verdict \<Rightarrow> verdict \<Rightarrow> verdict" where
  "and_then Next v = v"
| "and_then (Reply r) v = Reply r"

definition before_routes ::
  "(request \<Rightarrow> verdict) \<Rightarrow> (request \<Rightarrow> verdict) \<Rightarrow> process_env \<Rightarrow> request \<Rightarrow> verdict" where
  "before_routes cors json env req =
     and_then (cors req) (and_then (json req) (api_key_guard env req))"

text \<open>The guard of the earlier bridge server: the variable is not trimmed,
  \<open>/api/health\<close> is the only open path, and the guard has no test of the method (an
  OPTIONS request that reaches it is treated as any other).\<close>

definition legacy_BRIDGE_API_KEY :: "process_env \<Rightarrow> jsval" where
  "legacy_BRIDGE_API_KEY env = str_or_undefined (getenv env ''BRIDGE_API_KEY'')"

definition legacy_api_key_guard :: "process_env \<Rightarrow> request \<Rightarrow> verdict" where
  "legacy_api_key_guard env req =
     (if req_path req \<in> set [''/api/health''] then Next
      else
        let key = str_or_undefined (x_api_key req)
        in if \<not> truthy (legacy_BRIDGE_API_KEY env) \<or> key = legacy_BRIDGE_API_KEY env then Next
           else Reply unauthorized)"

definition legacy_before_routes ::
  "(request \<Rightarrow> verdict) \<Rightarrow> (request \<Rightarrow> verdict) \<Rightarrow> process_env \<Rightarrow> request \<Rightarrow> verdict" where
  "legacy_before_routes cors json env req =
     and_then (cors req) (and_then (json req) (legacy_api_key_guard env req))"

subsection \<open>Helpers\<close>

text \<open>\<open>ensureEnv(res)\<close>: \<open>None\<close> when it returns true, and the answer it has sent when it
  returns false.\<close>

definition ensureEnv :: "process_env \<Rightarrow> response option" where
  "ensureEnv env =
     (if \<not> hasEssentialEnv env then
        Some (Response 500 (JObj
          [(''error'', JStr ''Missing required env vars''),
           (''details'', JObj
             [(''META_AD_ACCOUNT_ID'', JBool (truthy (AD_ACCOUNT_ID env))),
              (''META_ACCESS_TOKEN'',
                 JBool (truthy (str_or_undefined (getenv env ''META_ACCESS_TOKEN'')))),
              (''META_SYSTEM_USER_TOKEN'',
                 JBool (truthy (str_or_undefined (getenv env ''META_SYSTEM_USER_TOKEN''))))])]))
      else None)"

text \<open>\<open>toCents(eur)\<close>; the result is \<open>undefined\<close> when \<open>Number(eur)\<close> is NaN, and
  a throw of \<open>Number(eur)\<close> is a throw of \<open>toCents\<close>.\<close>

definition toCents :: "host \<Rightarrow> jsval \<Rightarrow> thrown + jsval" where
  "toCents h eur =
     (case ToNumber h eur of
        Inl t \<Rightarrow> Inl t
      | Inr None \<Rightarrow> Inr JUndefined
      | Inr (Some n) \<Rightarrow> Inr (number (map_option Math_round (num_times n (Fin 100)))))"

text \<open>The answer of the \<open>catch\<close> of the bridge server's handlers to a TypeError of a
  conversion: \<open>err.response\<close> is \<open>undefined\<close>, so the error is \<open>err.message\<close>.\<close>

definition caught :: "host \<Rightarrow> response" where
  "caught h = Response 400 (JObj [(''error'', JStr (conversion_message h))])"

definition default_fields :: string where
  "default_fields =
     ''date_start,ad_id,adset_id,campaign_id,spend,clicks,ctr,cpm,actions,action_values,roas''"

subsection \<open>\<open>POST /api/insights\<close>\<close>

definition insights :: "process_env \<Rightarrow> host \<Rightarrow> jsval \<Rightarrow> response" where
  "insights env h body =
     (case ensureEnv env of
        Some r \<Rightarrow> r
      | None \<Rightarrow>
        let b = or_empty body;
            level = default_to (JStr ''ad'') (property b ''level'');
            since = property b ''since'';
            until = property b ''until'';
            time_increment = default_to (JStr ''1'') (property b ''time_increment'');
            breakdowns = property b ''breakdowns'';
            fields = property b ''fields'';
            date_preset = property b ''date_preset'';
            url = BASE env (config_text (AD_ACCOUNT_ID env) @ ''/insights'');
            params =
              [(''level'', level), (''time_increment'', time_increment),
               (''fields'', or_else fields (JStr default_fields))]
              @ (if truthy breakdowns then [(''breakdowns'', breakdowns)] else [])
              @ (if truthy since \<and> truthy until
                 then [(''time_range'',
                    JStr (JSON_stringify h (JObj [(''since'', since), (''until'', until)])))]
                 else if truthy date_preset then [(''date_preset'', date_preset)]
                 else [])
        in case graph h (Call ''GET'' url params (authHeader env)) of
             Inr data \<Rightarrow> Response 200 data
           | Inl e \<Rightarrow> Response 400 (JObj [(''error'', e)]))"

subsection \<open>\<open>POST /api/adset_budget\<close>\<close>

text \<open>After the test of the two fields, \<open>toCents(daily_budget_eur)\<close> and then the
  template literal \<open>`${adset_id}`\<close> can throw; the \<open>catch\<close> answers, and no call is
  made.\<close>

definition adset_budget :: "process_env \<Rightarrow> host \<Rightarrow> jsval \<Rightarrow> response" where
  "adset_budget env h body =
     (case ensureEnv env of
        Some r \<Rightarrow> r
      | None \<Rightarrow>
        let b = or_empty body;
            adset_id = property b ''adset_id'';
            daily_budget_eur = property b ''daily_budget_eur''
        in if \<not> truthy adset_id \<or> daily_budget_eur = JUndefined then
             Response 400 (JObj [(''error'', JStr ''adset_id y daily_budget_eur son requeridos'')])
           else
             (case toCents h daily_budget_eur of
                Inl t \<Rightarrow> caught h
              | Inr daily_budget \<Rightarrow>
                if daily_budget = JUndefined then
                  Response 400 (JObj
                    [(''error'', JStr (''daily_budget_eur inv'' @ [CHR 0xE1] @ ''lido''))])
                else
                  (case ToString h adset_id of
                     Inl t \<Rightarrow> caught h
                   | Inr path \<Rightarrow>
                     (case graph h (Call ''POST'' (BASE env path)
                              [(''daily_budget'', daily_budget)] (authHeader env)) of
                        Inr data \<Rightarrow>
                          Response 200 (JObj [(''updated'', JBool True), (''meta'', data)])
                      | Inl e \<Rightarrow> Response 400 (JObj [(''error'', e)])))))"

section \<open>The gateway (server/routes.ts)\<close>

definition routes_GRAPH_VERSION :: "process_env \<Rightarrow> jsval" where
  "routes_GRAPH_VERSION env =
     or_else (str_or_undefined (getenv env ''META_GRAPH_VERSION'')) (JStr ''v23.0'')"

definition routes_META_TOKEN :: "process_env \<Rightarrow> jsval" where
  "routes_META_TOKEN env = str_or_undefined (getenv env ''META_SYSTEM_USER_TOKEN'')"

definition routes_AD_ACCOUNT_ID :: "process_env \<Rightarrow> jsval" where
  "routes_AD_ACCOUNT_ID env = str_or_undefined (getenv env ''META_AD_ACCOUNT_ID'')"

definition routes_BASE :: "process_env \<Rightarrow> string \<Rightarrow> string" where
  "routes_BASE env p =
     ''https://graph.facebook.com/'' @ config_text (routes_GRAPH_VERSION env) @ ''/'' @ p"

definition routes_insights :: "process_env \<Rightarrow> host \<Rightarrow> jsval \<Rightarrow> response" where
  "routes_insights env h body =
     (let b = or_empty body;
          level = default_to (JStr ''ad'') (property b ''level'');
          since = property b ''since'';
          until = property b ''until'';
          time_increment = default_to (JStr ''1'') (property b ''time_increment'');
          breakdowns = property b ''breakdowns'';
          fields = property b ''fields''
      in if \<not> truthy since \<or> \<not> truthy until then
           Response 400 (JObj [(''error'', JStr ''since and until dates are required'')])
         else if \<not> truthy (routes_META_TOKEN env) then
           Response 500 (JObj [(''error'', JStr ''META_SYSTEM_USER_TOKEN not configured'')])
         else if \<not> truthy (routes_AD_ACCOUNT_ID env) then
           Response 500 (JObj [(''error'', JStr ''META_AD_ACCOUNT_ID not configured'')])
         else
           let url = routes_BASE env (config_text (routes_AD_ACCOUNT_ID env) @ ''/insights'');
               params =
                 [(''level'', level),
                  (''time_range'',
                     JStr (JSON_stringify h (JObj [(''since'', since), (''until'', until)]))),
                  (''time_increment'', time_increment),
                  (''fields'', or_else fields (JStr default_fields))]
                 @ (if truthy breakdowns then [(''breakdowns'', breakdowns)] else [])
           in case graph h (Call ''GET'' url params
                     (''Bearer '' @ config_text (routes_META_TOKEN env))) of
                Inr data \<Rightarrow> Response 200 data
              | Inl e \<Rightarrow> Response 400 (JObj [(''error'', e), (''endpoint'', JStr ''insights'')]))"

text \<open>The inline conversion \<open>Math.round(Number(daily_budget_eur) * 100)\<close>; NaN stays
  NaN, and a throw of \<open>Number\<close> is a throw of the expression.\<close>

definition routes_cents :: "host \<Rightarrow> jsval \<Rightarrow> thrown + jsval" where
  "routes_cents h eur =
     (case ToNumber h eur of
        Inl t \<Rightarrow> Inl t
      | Inr n \<Rightarrow>
        Inr (number (map_option Math_round (Option.bind n (\<lambda>n. num_times n (Fin 100))))))"

text \<open>The answer of the \<open>catch\<close> of \<open>POST /api/adset_budget\<close> to a TypeError of a
  conversion.\<close>

definition routes_caught :: "host \<Rightarrow> response" where
  "routes_caught h = Response 400 (JObj
     [(''error'', JStr (conversion_message h)), (''endpoint'', JStr ''adset_budget'')])"

text \<open>After the tests, the template literal \<open>`${adset_id}`\<close> and then the conversion
  of \<open>daily_budget_eur\<close> can throw; the \<open>catch\<close> answers, and no call is made.\<close>

definition routes_adset_budget :: "process_env \<Rightarrow> host \<Rightarrow> jsval \<Rightarrow> response" where
  "routes_adset_budget env h body =
     (let b = or_empty body;
          adset_id = property b ''adset_id'';
          daily_budget_eur = property b ''daily_budget_eur''
      in if \<not> truthy adset_id \<or> \<not> truthy daily_budget_eur then
           Response 400 (JObj [(''error'', JStr ''adset_id and daily_budget_eur are required'')])
         else if \<not> truthy (routes_META_TOKEN env) then
           Response 500 (JObj [(''error'', JStr ''META_SYSTEM_USER_TOKEN not configured'')])
         else
           (case ToString h adset_id of
              Inl t \<Rightarrow> routes_caught h
            | Inr path \<Rightarrow>
              (case routes_cents h daily_budget_eur of
                 Inl t \<Rightarrow> routes_caught h
               | Inr daily_budget \<Rightarrow>
                 (case graph h (Call ''POST'' (routes_BASE env path)
                          [(''daily_budget'', daily_budget)]
                          (''Bearer '' @ config_text (routes_META_TOKEN env))) of
                    Inr data \<Rightarrow> Response 200 (JObj
                      [(''updated'', JBool True), (''meta'', data),
                       (''converted_budget_cents'', daily_budget)])
                  | Inl e \<Rightarrow> Response 400 (JObj
                      [(''error'', e), (''endpoint'', JStr ''adset_budget'')])))))"

text \<open>Reading a response: the list under \<open>results\<close>, when the payload has one.\<close>

definition results_of :: "response \<Rightarrow> jsval list option" where
  "results_of r = (case property (payload r) ''results'' of JArr rs \<Rightarrow> Some rs | _ \<Rightarrow> None)"

text \<open>
  The specification's words for the budget rule: a value lies outside the inclusive
  interval from \<open>lo\<close> to \<open>hi\<close> when it is not both at least \<open>lo\<close> and at most \<open>hi\<close>.
\<close>

definition num_le :: "num \<Rightarrow> num \<Rightarrow> bool" where
  "num_le a b = (a = b \<or> num_less a b)"

definition outside_interval :: "num \<Rightarrow> num \<Rightarrow> num \<Rightarrow> bool" where
  "outside_interval lo hi x = (\<not> (num_le lo x \<and> num_le x hi))"

text \<open>A host for the examples: a fixed clock, conversions that are never reached there,
  and a Graph API that resolves with an empty object.\<close>

definition stub_host :: host where
  "stub_host = \<lparr> now_iso = ''2025-01-01T00:00:00.000Z'',
     number_to_string = (\<lambda>q. ''0''),
     string_to_number = (\<lambda>s. None),
     JSON_stringify = (\<lambda>v. ''{}''),
     conversion_message = ''Cannot convert object to primitive value'',
     graph = (\<lambda>c. Inr (JObj [])) \<rparr>"

text \<open>
  The specification's words for the conversion to cents: rounding to the nearest
  integer, a tie going away from zero; infinities are kept.
\<close>

definition round_half_away :: "rat \<Rightarrow> int" where
  "round_half_away a = (if 0 \<le> a then \<lfloor>a + 1 / 2\<rfloor> else - \<lfloor>- a + 1 / 2\<rfloor>)"

fun rounded_away :: "num \<Rightarrow> num" where
  "rounded_away (Fin a) = Fin (of_int (round_half_away a))"
| "rounded_away PInf = PInf"
| "rounded_away NInf = NInf"

text \<open>A library middleware on the requests it has nothing to answer to: it calls
  \<open>next()\<close>.\<close>

definition passes :: "request \<Rightarrow> verdict" where
  "passes req = Next"

text \<open>An environment for the examples: every variable the gateway reads is set.\<close>

definition sample_env :: process_env where
  "sample_env =
     [(''META_AD_ACCOUNT_ID'', ''act_1''), (''META_SYSTEM_USER_TOKEN'', ''t0k''),
      (''BRIDGE_API_KEY'', ''s3cret'')]"

text \<open>A negative Number half way between two integers, and the next integer.\<close>

fun negative_tie :: "num \<Rightarrow> bool" where
  "negative_tie (Fin a) = (a < 0 \<and> frac a = 1 / 2)"
| "negative_tie x = False"

fun num_succ :: "num \<Rightarrow> num" where
  "num_succ (Fin a) = Fin (a + 1)"
| "num_succ x = x"

section \<open>Properties of the simulator\<close>

lemma member_not_nullish: "\<not> nullish p \<Longrightarrow> member p k = Some (property p k)"
  by (simp add: member_def)

lemma property_nullish: "nullish p \<Longrightarrow> property p k = JUndefined"
  by (cases p) simp_all

lemma map_throwing_nth:
  "map_throwing f xs = Some ys \<Longrightarrow>
     length ys = length xs \<and> (\<forall>i < length xs. f (xs ! i) = Some (ys ! i))"
proof (induction xs arbitrary: ys)
  case Nil
  then show ?case by simp
next
  case (Cons x xs)
  from Cons.prems obtain y zs where y: "f x = Some y" and zs: "map_throwing f xs = Some zs"
    and ys: "ys = y # zs"
    by (auto split: option.splits)
  from Cons.IH [OF zs] have len: "length zs = length xs"
    and nth: "\<forall>i < length xs. f (xs ! i) = Some (zs ! i)" by simp_all
  show ?case
  proof (intro conjI allI impI)
    show "length ys = length (x # xs)" using ys len by simp
  next
    fix i assume "i < length (x # xs)"
    then show "f ((x # xs) ! i) = Some (ys ! i)"
      using y ys nth by (cases i) simp_all
  qed
qed

lemma map_throwing_total:
  "(\<And>x. x \<in> set xs \<Longrightarrow> f x \<noteq> None) \<Longrightarrow> \<exists>ys. map_throwing f xs = Some ys"
proof (induction xs)
  case Nil
  then show ?case by simp
next
  case (Cons x xs)
  then obtain y where "f x = Some y" by fastforce
  moreover from Cons obtain ys where "map_throwing f xs = Some ys" by fastforce
  ultimately show ?case by simp
qed

lemma map_throwing_throws: "x \<in> set xs \<Longrightarrow> f x = None \<Longrightarrow> map_throwing f xs = None"
  by (induction xs) (auto split: option.splits)

lemma proposal_outcome_throws: "nullish p \<Longrightarrow> proposal_outcome p = None"
  by (simp add: proposal_outcome_def member_def)

lemma map_throwing_map: "map_throwing f xs = Some ys \<Longrightarrow> map f xs = map Some ys"
  by (induction xs arbitrary: ys) (auto split: option.splits)

lemma proposal_outcome_total: "\<not> nullish p \<Longrightarrow> proposal_outcome p \<noteq> None"
  by (simp add: proposal_outcome_def member_not_nullish)

lemma simulate_proposals:
  assumes "property (or_empty body) ''proposals'' = JArr ps"
  shows "simulate h body =
     (case map_throwing proposal_outcome ps of
        Some rs \<Rightarrow> simulation h (default_to (JObj []) (property (or_empty body) ''context'')) rs
      | None \<Rightarrow> Response 500 (JObj [(''error'', JStr ''Error simulando propuestas'')]))"
  using assms by (simp add: simulate_def simulate_try_def Let_def split: option.splits)

lemma simulate_ok_results:
  assumes "property (or_empty body) ''proposals'' = JArr ps"
    and "status (simulate h body) = 200"
  shows "\<exists>rs. results_of (simulate h body) = Some rs \<and> map_throwing proposal_outcome ps = Some rs"
  using assms
  by (auto simp add: simulate_proposals simulation_def results_of_def split: option.splits)

lemma typed_not_nullish: "property p k = JStr s \<Longrightarrow> \<not> nullish p"
  using property_nullish [of p k] by auto

lemma outside_interval_30:
  "outside_interval (Fin (- 30)) (Fin 30) d = (num_less (Fin 30) d \<or> num_less d (Fin (- 30)))"
  by (cases d) (auto simp add: outside_interval_def num_le_def)

lemma budget_change_outcome:
  assumes "property p ''type'' = JStr ''budget_change''"
  shows "proposal_outcome p = Some
     (if number_and (property p ''new_daily_budget_eur'') (\<lambda>n. num_less n (Fin 1))
      then outcome (property p ''id'') (JStr ''budget_change'') False reason_min
      else if number_and (property p ''delta_pct'') (outside_interval (Fin (- 30)) (Fin 30))
      then outcome (property p ''id'') (JStr ''budget_change'') False reason_delta
      else outcome (property p ''id'') (JStr ''budget_change'') True ''OK'')"
proof -
  have "\<not> nullish p" using assms by (rule typed_not_nullish)
  moreover have "(\<lambda>d. num_less (Fin 30) d \<or> num_less d (Fin (- 30)))
      = outside_interval (Fin (- 30)) (Fin 30)"
    by (rule ext) (simp add: outside_interval_30)
  ultimately show ?thesis
    using assms by (simp add: proposal_outcome_def member_not_nullish DEFAULT_POLICY_def)
qed

lemma status_change_outcome:
  assumes "property p ''type'' = JStr ''status_change''"
  shows "proposal_outcome p = Some
     (if has [''PAUSED'', ''ACTIVE'', ''ARCHIVED''] (property p ''new_status'')
      then outcome (property p ''id'') (JStr ''status_change'') True ''OK''
      else outcome (property p ''id'') (JStr ''status_change'') False ''Estado no permitido'')"
proof -
  have "\<not> nullish p" using assms by (rule typed_not_nullish)
  then show ?thesis
    using assms by (simp add: proposal_outcome_def member_not_nullish DEFAULT_POLICY_def)
qed

lemma other_type_outcome:
  assumes "proposal_outcome p = Some r"
    and "property p ''type'' \<noteq> JStr ''budget_change''"
    and "property p ''type'' \<noteq> JStr ''status_change''"
  shows "r = outcome (property p ''id'') (property p ''type'') False ''Tipo no soportado''"
proof -
  have "\<not> nullish p"
    using assms(1) by (auto simp add: proposal_outcome_def member_def split: if_splits)
  then show ?thesis
    using assms by (simp add: proposal_outcome_def member_not_nullish)
qed

lemma has_allowed:
  "has [''PAUSED'', ''ACTIVE'', ''ARCHIVED''] v =
     (v \<in> {JStr ''ACTIVE'', JStr ''PAUSED'', JStr ''ARCHIVED''})"
  by (cases v) auto

lemma outcome_approved [simp]: "property (outcome pid ty ok why) ''approved'' = JBool ok"
  by (simp add: outcome_def)

lemma outcome_reason [simp]: "property (outcome pid ty ok why) ''reason'' = JStr why"
  by (simp add: outcome_def)

lemma simulate_decision:
  assumes "property (or_empty body) ''proposals'' = JArr ps"
    and "status (simulate h body) = 200"
  shows "\<exists>rs. results_of (simulate h body) = Some rs \<and> length rs = length ps \<and>
           (\<forall>i < length ps. proposal_outcome (ps ! i) = Some (rs ! i))"
proof -
  from simulate_ok_results [OF assms] obtain rs
    where "results_of (simulate h body) = Some rs"
      and "map_throwing proposal_outcome ps = Some rs" by blast
  with map_throwing_nth [of proposal_outcome ps rs] show ?thesis by blast
qed

subsection \<open>The budget rule\<close>

text \<open>
  C1.  Take a request whose \<open>proposals\<close> is a list and which is answered with decisions
  (status 200), and a proposal of the list of type \<open>budget_change\<close>.  If its
  \<open>new_daily_budget_eur\<close> and \<open>delta_pct\<close> are numbers \<open>b\<close> and \<open>d\<close>, the decision
  at the same index is rejected when \<open>b < 1\<close> or \<open>d\<close> lies outside the inclusive
  interval from -30 to 30, and approved otherwise.  If its \<open>delta_pct\<close> is 40, the
  decision is rejected, whatever the other fields are.
\<close>

theorem budget_change_thresholds:
  assumes "property (or_empty body) ''proposals'' = JArr ps"
    and "i < length ps"
    and "property (ps ! i) ''type'' = JStr ''budget_change''"
    and "status (simulate h body) = 200"
  shows "\<exists>rs. results_of (simulate h body) = Some rs \<and> length rs = length ps \<and>
     (\<forall>b d. property (ps ! i) ''new_daily_budget_eur'' = JNum b \<longrightarrow>
            property (ps ! i) ''delta_pct'' = JNum d \<longrightarrow>
            property (rs ! i) ''approved'' =
              JBool (\<not> (num_less b (Fin 1) \<or> outside_interval (Fin (- 30)) (Fin 30) d))) \<and>
     (property (ps ! i) ''delta_pct'' = JNum (Fin 40) \<longrightarrow>
        property (rs ! i) ''approved'' = JBool False)"
proof -
  from simulate_decision [OF assms(1) assms(4)] obtain rs
    where rs: "results_of (simulate h body) = Some rs" "length rs = length ps"
      and nth: "\<forall>i < length ps. proposal_outcome (ps ! i) = Some (rs ! i)" by blast
  from nth assms(2) have "proposal_outcome (ps ! i) = Some (rs ! i)" by simp
  with budget_change_outcome [OF assms(3)] have r: "rs ! i =
     (if number_and (property (ps ! i) ''new_daily_budget_eur'') (\<lambda>n. num_less n (Fin 1))
      then outcome (property (ps ! i) ''id'') (JStr ''budget_change'') False reason_min
      else if number_and (property (ps ! i) ''delta_pct'') (outside_interval (Fin (- 30)) (Fin 30))
      then outcome (property (ps ! i) ''id'') (JStr ''budget_change'') False reason_delta
      else outcome (property (ps ! i) ''id'') (JStr ''budget_change'') True ''OK'')"
    by simp
  have numbers: "property (rs ! i) ''approved'' =
       JBool (\<not> (num_less b (Fin 1) \<or> outside_interval (Fin (- 30)) (Fin 30) d))"
    if "property (ps ! i) ''new_daily_budget_eur'' = JNum b"
      and "property (ps ! i) ''delta_pct'' = JNum d" for b d
    using that by (simp add: r)
  have forty: "property (rs ! i) ''approved'' = JBool False"
    if "property (ps ! i) ''delta_pct'' = JNum (Fin 40)"
    using that by (simp add: r outside_interval_30)
  from rs numbers forty show ?thesis by blast
qed

theorem budget_change_thresholds_witness:
  "\<exists>rs. results_of (simulate stub_host (JObj [(''proposals'', JArr
       [JObj [(''id'', JStr ''a''), (''type'', JStr ''budget_change''),
              (''new_daily_budget_eur'', JNum (Fin 5)), (''delta_pct'', JNum (Fin 40))]])]))
     = Some rs \<and> length rs = 1 \<and> property (rs ! 0) ''approved'' = JBool False"
  using budget_change_thresholds [of
      "JObj [(''proposals'', JArr
       [JObj [(''id'', JStr ''a''), (''type'', JStr ''budget_change''),
              (''new_daily_budget_eur'', JNum (Fin 5)), (''delta_pct'', JNum (Fin 40))]])]"
      "[JObj [(''id'', JStr ''a''), (''type'', JStr ''budget_change''),
              (''new_daily_budget_eur'', JNum (Fin 5)), (''delta_pct'', JNum (Fin 40))]]"
      0 stub_host]
  by (auto simp add: or_empty_def simulate_def simulate_try_def default_to_def
      proposal_outcome_def member_def DEFAULT_POLICY_def simulation_def outcome_def)

subsection \<open>The status rule\<close>

text \<open>
  C4.  For a request answered with decisions and a proposal of its list of type
  \<open>status_change\<close>, the decision at the same index is approved if and only if
  \<open>new_status\<close> is one of the strings ACTIVE, PAUSED, ARCHIVED; with
  \<open>new_status = "DELETED"\<close> it is rejected.
\<close>

theorem status_change_allowed:
  assumes "property (or_empty body) ''proposals'' = JArr ps"
    and "i < length ps"
    and "property (ps ! i) ''type'' = JStr ''status_change''"
    and "status (simulate h body) = 200"
  shows "\<exists>rs. results_of (simulate h body) = Some rs \<and> length rs = length ps \<and>
     property (rs ! i) ''approved'' = JBool (property (ps ! i) ''new_status''
        \<in> {JStr ''ACTIVE'', JStr ''PAUSED'', JStr ''ARCHIVED''}) \<and>
     (property (ps ! i) ''new_status'' = JStr ''DELETED'' \<longrightarrow>
        property (rs ! i) ''approved'' = JBool False)"
proof -
  from simulate_decision [OF assms(1) assms(4)] obtain rs
    where rs: "results_of (simulate h body) = Some rs" "length rs = length ps"
      and nth: "\<forall>i < length ps. proposal_outcome (ps ! i) = Some (rs ! i)" by blast
  from nth assms(2) have "proposal_outcome (ps ! i) = Some (rs ! i)" by simp
  with status_change_outcome [OF assms(3)]
  have iff: "property (rs ! i) ''approved'' = JBool (property (ps ! i) ''new_status''
        \<in> {JStr ''ACTIVE'', JStr ''PAUSED'', JStr ''ARCHIVED''})"
    by (simp add: has_allowed split: if_splits)
  then have "property (rs ! i) ''approved'' = JBool False"
    if "property (ps ! i) ''new_status'' = JStr ''DELETED''"
    using that by simp
  with rs iff show ?thesis by blast
qed

theorem status_change_allowed_witness:
  "\<exists>rs. results_of (simulate stub_host (JObj [(''proposals'', JArr
       [JObj [(''id'', JStr ''a''), (''type'', JStr ''status_change''),
              (''new_status'', JStr ''DELETED'')]])]))
     = Some rs \<and> length rs = 1 \<and> property (rs ! 0) ''approved'' = JBool False"
  using status_change_allowed [of
      "JObj [(''proposals'', JArr
       [JObj [(''id'', JStr ''a''), (''type'', JStr ''status_change''),
              (''new_status'', JStr ''DELETED'')]])]"
      "[JObj [(''id'', JStr ''a''), (''type'', JStr ''status_change''),
              (''new_status'', JStr ''DELETED'')]]"
      0 stub_host]
  by (auto simp add: or_empty_def simulate_def simulate_try_def default_to_def
      proposal_outcome_def member_def DEFAULT_POLICY_def simulation_def outcome_def)

subsection \<open>Other types\<close>

text \<open>
  C5, as the claim states it, fails: the reason given for a type that is neither
  \<open>budget_change\<close> nor \<open>status_change\<close> is the string \<open>Tipo no soportado\<close>, not
  \<open>unsupported type\<close>.
\<close>

theorem unsupported_type_reason_counterexample:
  "results_of (simulate stub_host (JObj [(''proposals'', JArr
       [JObj [(''id'', JStr ''a''), (''type'', JStr ''bid_change'')]])]))
     = Some [JObj [(''id'', JStr ''a''), (''type'', JStr ''bid_change''),
                   (''approved'', JBool False), (''reason'', JStr ''Tipo no soportado'')]]
   \<and> JStr ''Tipo no soportado'' \<noteq> JStr ''unsupported type''"
  by (simp add: or_empty_def simulate_def simulate_try_def default_to_def
      proposal_outcome_def member_def simulation_def outcome_def results_of_def)

text \<open>
  C5, amended.  For a request answered with decisions and a proposal of its list whose
  type is neither \<open>budget_change\<close> nor \<open>status_change\<close>, the decision at the same
  index is rejected, and its reason is \<open>Tipo no soportado\<close>.
\<close>

theorem unsupported_type_rejected:
  assumes "property (or_empty body) ''proposals'' = JArr ps"
    and "i < length ps"
    and "property (ps ! i) ''type'' \<noteq> JStr ''budget_change''"
    and "property (ps ! i) ''type'' \<noteq> JStr ''status_change''"
    and "status (simulate h body) = 200"
  shows "\<exists>rs. results_of (simulate h body) = Some rs \<and> length rs = length ps \<and>
     property (rs ! i) ''approved'' = JBool False \<and>
     property (rs ! i) ''reason'' = JStr ''Tipo no soportado''"
proof -
  from simulate_decision [OF assms(1) assms(5)] obtain rs
    where rs: "results_of (simulate h body) = Some rs" "length rs = length ps"
      and nth: "\<forall>i < length ps. proposal_outcome (ps ! i) = Some (rs ! i)" by blast
  from nth assms(2) have "proposal_outcome (ps ! i) = Some (rs ! i)" by simp
  from other_type_outcome [OF this assms(3) assms(4)] rs show ?thesis by simp
qed

theorem unsupported_type_rejected_witness:
  "\<exists>rs. results_of (simulate stub_host (JObj [(''proposals'', JArr
       [JObj [(''id'', JStr ''a''), (''type'', JStr ''bid_change'')]])]))
     = Some rs \<and> length rs = 1 \<and> property (rs ! 0) ''approved'' = JBool False \<and>
     property (rs ! 0) ''reason'' = JStr ''Tipo no soportado''"
  using unsupported_type_rejected [of
      "JObj [(''proposals'', JArr
       [JObj [(''id'', JStr ''a''), (''type'', JStr ''bid_change'')]])]"
      "[JObj [(''id'', JStr ''a''), (''type'', JStr ''bid_change'')]]"
      0 stub_host]
  by (auto simp add: or_empty_def simulate_def simulate_try_def default_to_def
      proposal_outcome_def member_def DEFAULT_POLICY_def simulation_def outcome_def)

subsection \<open>Fields that are not numbers\<close>

text \<open>
  C8.  For a request answered with decisions and a proposal of its list of type
  \<open>budget_change\<close>, each threshold is applied only to a field that is a number: the
  decision is approved unless \<open>new_daily_budget_eur\<close> is a number below 1 or
  \<open>delta_pct\<close> is a number outside the interval from -30 to 30.  So when neither
  field is a number (absent, or for instance the string \<open>"0"\<close>), the decision is
  approved, with reason \<open>OK\<close>.
\<close>

theorem budget_change_non_numbers:
  assumes "property (or_empty body) ''proposals'' = JArr ps"
    and "i < length ps"
    and "property (ps ! i) ''type'' = JStr ''budget_change''"
    and "status (simulate h body) = 200"
  shows "\<exists>rs. results_of (simulate h body) = Some rs \<and> length rs = length ps \<and>
     property (rs ! i) ''approved'' = JBool
       (\<not> number_and (property (ps ! i) ''new_daily_budget_eur'') (\<lambda>n. num_less n (Fin 1)) \<and>
        \<not> number_and (property (ps ! i) ''delta_pct'') (outside_interval (Fin (- 30)) (Fin 30))) \<and>
     ((\<forall>n. property (ps ! i) ''new_daily_budget_eur'' \<noteq> JNum n) \<and>
      (\<forall>n. property (ps ! i) ''delta_pct'' \<noteq> JNum n) \<longrightarrow>
        property (rs ! i) ''approved'' = JBool True \<and>
        property (rs ! i) ''reason'' = JStr ''OK'')"
proof -
  from simulate_decision [OF assms(1) assms(4)] obtain rs
    where rs: "results_of (simulate h body) = Some rs" "length rs = length ps"
      and nth: "\<forall>i < length ps. proposal_outcome (ps ! i) = Some (rs ! i)" by blast
  from nth assms(2) have "proposal_outcome (ps ! i) = Some (rs ! i)" by simp
  with budget_change_outcome [OF assms(3)] have r: "rs ! i =
     (if number_and (property (ps ! i) ''new_daily_budget_eur'') (\<lambda>n. num_less n (Fin 1))
      then outcome (property (ps ! i) ''id'') (JStr ''budget_change'') False reason_min
      else if number_and (property (ps ! i) ''delta_pct'') (outside_interval (Fin (- 30)) (Fin 30))
      then outcome (property (ps ! i) ''id'') (JStr ''budget_change'') False reason_delta
      else outcome (property (ps ! i) ''id'') (JStr ''budget_change'') True ''OK'')"
    by simp
  have general: "property (rs ! i) ''approved'' = JBool
       (\<not> number_and (property (ps ! i) ''new_daily_budget_eur'') (\<lambda>n. num_less n (Fin 1)) \<and>
        \<not> number_and (property (ps ! i) ''delta_pct'') (outside_interval (Fin (- 30)) (Fin 30)))"
    by (simp add: r)
  have not_number: "\<not> number_and v test" if "\<forall>n. v \<noteq> JNum n" for v test
    using that by (cases v) simp_all
  have "property (rs ! i) ''approved'' = JBool True \<and> property (rs ! i) ''reason'' = JStr ''OK''"
    if "\<forall>n. property (ps ! i) ''new_daily_budget_eur'' \<noteq> JNum n"
      and "\<forall>n. property (ps ! i) ''delta_pct'' \<noteq> JNum n"
    using that by (simp add: r not_number)
  with rs general show ?thesis by blast
qed

theorem budget_change_non_numbers_witness:
  "\<exists>rs. results_of (simulate stub_host (JObj [(''proposals'', JArr
       [JObj [(''id'', JStr ''a''), (''type'', JStr ''budget_change''),
              (''new_daily_budget_eur'', JStr ''0'')]])]))
     = Some rs \<and> length rs = 1 \<and> property (rs ! 0) ''approved'' = JBool True \<and>
     property (rs ! 0) ''reason'' = JStr ''OK''"
  using budget_change_non_numbers [of
      "JObj [(''proposals'', JArr
       [JObj [(''id'', JStr ''a''), (''type'', JStr ''budget_change''),
              (''new_daily_budget_eur'', JStr ''0'')]])]"
      "[JObj [(''id'', JStr ''a''), (''type'', JStr ''budget_change''),
              (''new_daily_budget_eur'', JStr ''0'')]]"
      0 stub_host]
  by (auto simp add: or_empty_def simulate_def simulate_try_def default_to_def
      proposal_outcome_def member_def DEFAULT_POLICY_def simulation_def outcome_def)

subsection \<open>The shape of the answer\<close>

text \<open>
  C6, as the claim states it, fails: a request whose list holds \<open>null\<close> is answered
  with status 500 and no results at all, so the decision of the first proposal is lost
  to the second entry.
\<close>

theorem simulate_null_proposal_counterexample:
  "simulate stub_host (JObj [(''proposals'', JArr
       [JObj [(''id'', JStr ''a''), (''type'', JStr ''status_change''),
              (''new_status'', JStr ''ACTIVE'')], JNull])])
     = Response 500 (JObj [(''error'', JStr ''Error simulando propuestas'')])"
  by (simp add: or_empty_def simulate_def simulate_try_def default_to_def
      proposal_outcome_def member_def DEFAULT_POLICY_def outcome_def)

text \<open>
  C6, amended.  For every request whose \<open>proposals\<close> is a list with no \<open>null\<close>
  entry, the answer has status 200; its results have the length and order of the
  proposals, each decision being \<open>proposal_outcome\<close> of the proposal at the same index
  (a function of that proposal and the static policy alone); \<open>contextEcho\<close> is the
  request's \<open>context\<close> (an empty object when the request has none), and \<open>policy\<close>
  is the static policy.  A list with a \<open>null\<close> entry is answered with status 500 and
  no results.
\<close>

theorem simulate_pointwise:
  assumes "property (or_empty body) ''proposals'' = JArr ps"
  shows "((\<forall>p \<in> set ps. \<not> nullish p) \<longrightarrow>
     (\<exists>rs. map proposal_outcome ps = map Some rs \<and>
       simulate h body = Response 200 (JObj
         [(''mode'', JStr ''simulation''),
          (''contextEcho'',
             if property (or_empty body) ''context'' = JUndefined then JObj []
             else property (or_empty body) ''context''),
          (''policy'', JObj
             [(''maxIncreasePct'', JNum (Fin 30)), (''maxDecreasePct'', JNum (Fin 30)),
              (''minDailyBudgetEur'', JNum (Fin 1)),
              (''allowStatuses'', JArr [JStr ''PAUSED'', JStr ''ACTIVE'', JStr ''ARCHIVED''])]),
          (''results'', JArr rs),
          (''timestamp'', JStr (now_iso h))]))) \<and>
   ((\<exists>p \<in> set ps. nullish p) \<longrightarrow>
     simulate h body = Response 500 (JObj [(''error'', JStr ''Error simulando propuestas'')]))"
proof (intro conjI impI)
  assume total: "\<forall>p \<in> set ps. \<not> nullish p"
  have "\<exists>rs. map_throwing proposal_outcome ps = Some rs"
    using total by (intro map_throwing_total proposal_outcome_total) blast
  then obtain rs where rs: "map_throwing proposal_outcome ps = Some rs" ..
  have "simulate h body =
      simulation h (default_to (JObj []) (property (or_empty body) ''context'')) rs"
    using rs by (simp add: simulate_proposals [OF assms])
  then show "\<exists>rs. map proposal_outcome ps = map Some rs \<and>
       simulate h body = Response 200 (JObj
         [(''mode'', JStr ''simulation''),
          (''contextEcho'',
             if property (or_empty body) ''context'' = JUndefined then JObj []
             else property (or_empty body) ''context''),
          (''policy'', JObj
             [(''maxIncreasePct'', JNum (Fin 30)), (''maxDecreasePct'', JNum (Fin 30)),
              (''minDailyBudgetEur'', JNum (Fin 1)),
              (''allowStatuses'', JArr [JStr ''PAUSED'', JStr ''ACTIVE'', JStr ''ARCHIVED''])]),
          (''results'', JArr rs),
          (''timestamp'', JStr (now_iso h))])"
    using map_throwing_map [OF rs]
    by (auto simp add: simulation_def default_to_def policy_snapshot_def DEFAULT_POLICY_def)
next
  assume "\<exists>p \<in> set ps. nullish p"
  then obtain p where "p \<in> set ps" and "nullish p" ..
  then have "map_throwing proposal_outcome ps = None"
    by (intro map_throwing_throws [of p] proposal_outcome_throws)
  then show "simulate h body
      = Response 500 (JObj [(''error'', JStr ''Error simulando propuestas'')])"
    by (simp add: simulate_proposals [OF assms])
qed

theorem simulate_pointwise_witness:
  "simulate stub_host (JObj [(''context'', JStr ''q3''), (''proposals'', JArr
       [JObj [(''id'', JStr ''a''), (''type'', JStr ''status_change''),
              (''new_status'', JStr ''ACTIVE'')],
        JObj [(''id'', JStr ''b''), (''type'', JStr ''budget_change''),
              (''delta_pct'', JNum (Fin 40))]])])
   = Response 200 (JObj
       [(''mode'', JStr ''simulation''),
        (''contextEcho'', JStr ''q3''),
        (''policy'', JObj
           [(''maxIncreasePct'', JNum (Fin 30)), (''maxDecreasePct'', JNum (Fin 30)),
            (''minDailyBudgetEur'', JNum (Fin 1)),
            (''allowStatuses'', JArr [JStr ''PAUSED'', JStr ''ACTIVE'', JStr ''ARCHIVED''])]),
        (''results'', JArr
           [JObj [(''id'', JStr ''a''), (''type'', JStr ''status_change''),
                  (''approved'', JBool True), (''reason'', JStr ''OK'')],
            JObj [(''id'', JStr ''b''), (''type'', JStr ''budget_change''),
                  (''approved'', JBool False),
                  (''reason'', JStr ''delta_pct fuera de umbral (+30/-30)'')]]),
        (''timestamp'', JStr ''2025-01-01T00:00:00.000Z'')])"
  using simulate_pointwise [of
      "JObj [(''context'', JStr ''q3''), (''proposals'', JArr
       [JObj [(''id'', JStr ''a''), (''type'', JStr ''status_change''),
              (''new_status'', JStr ''ACTIVE'')],
        JObj [(''id'', JStr ''b''), (''type'', JStr ''budget_change''),
              (''delta_pct'', JNum (Fin 40))]])]"
      "[JObj [(''id'', JStr ''a''), (''type'', JStr ''status_change''),
              (''new_status'', JStr ''ACTIVE'')],
        JObj [(''id'', JStr ''b''), (''type'', JStr ''budget_change''),
              (''delta_pct'', JNum (Fin 40))]]"
      stub_host]
  by (auto simp add: or_empty_def simulate_def simulate_try_def default_to_def
      proposal_outcome_def member_def DEFAULT_POLICY_def simulation_def outcome_def
      policy_snapshot_def reason_delta_def stub_host_def)

section \<open>The rounding of doubles\<close>

lemma pow2_pos: "0 < pow2 k"
  by (simp add: pow2_def)

lemma pow2_nonneg_eq: "0 \<le> k \<Longrightarrow> pow2 k = of_int (2 ^ nat k)"
  by (simp add: pow2_def)

lemma pow2_Suc: "pow2 (k + 1) = 2 * pow2 k"
proof (cases "0 \<le> k")
  case True
  then show ?thesis by (simp add: pow2_def nat_add_distrib)
next
  case False
  then have k: "k < 0" by simp
  then obtain n where n: "nat (- k) = Suc n" by (cases "nat (- k)") auto
  then have "nat (- (k + 1)) = n" by linarith
  with n k show ?thesis by (auto simp add: pow2_def)
qed

lemma ilog2_bounds:
  assumes "0 < a"
  shows "pow2 (ilog2 a) \<le> a \<and> a < pow2 (ilog2 a + 1)"
proof (cases "1 \<le> a")
  case True
  define n where "n = \<lfloor>a\<rfloor>"
  have n: "1 \<le> n" unfolding n_def using True by linarith
  then have pos: "0 < n" by simp
  from bitlen_bounds [OF pos]
  have lo: "2 ^ nat (bitlen n - 1) \<le> n" and hi: "n < 2 ^ nat (bitlen n)" by simp_all
  have e: "ilog2 a = bitlen n - 1" using True by (simp add: ilog2_def n_def)
  have b1: "1 \<le> bitlen n" using pos by (simp add: bitlen_alt_def)
  have "pow2 (bitlen n - 1) = of_int (2 ^ nat (bitlen n - 1))"
    using b1 by (simp add: pow2_nonneg_eq)
  also have "\<dots> \<le> of_int n" using lo by (simp only: of_int_le_iff)
  also have "\<dots> \<le> a" unfolding n_def by simp
  finally have low: "pow2 (ilog2 a) \<le> a" by (simp add: e)
  have "a < of_int (n + 1)" unfolding n_def by linarith
  also have "\<dots> \<le> of_int (2 ^ nat (bitlen n))" using hi by (simp only: of_int_le_iff)
  also have "\<dots> = pow2 (bitlen n)" using b1 by (simp add: pow2_nonneg_eq)
  finally have "a < pow2 (ilog2 a + 1)" by (simp add: e)
  with low show ?thesis ..
next
  case False
  then have a1: "a < 1" by simp
  define m where "m = \<lceil>1 / a\<rceil>"
  have x: "1 < 1 / a" using assms a1 by simp
  then have m2: "2 \<le> m" unfolding m_def by linarith
  then have pos: "0 < m - 1" by simp
  define k where "k = bitlen (m - 1)"
  from bitlen_bounds [OF pos]
  have lo: "2 ^ nat (k - 1) \<le> m - 1" and hi: "m - 1 < 2 ^ nat k" by (simp_all add: k_def)
  have k1: "1 \<le> k" using pos by (simp add: k_def bitlen_alt_def)
  have e: "ilog2 a = - k" using False by (simp add: ilog2_def m_def k_def)
  have "1 / a \<le> of_int m" unfolding m_def by simp
  also have "\<dots> \<le> of_int (2 ^ nat k)" using hi by (simp only: of_int_le_iff)
  finally have up: "1 / a \<le> 2 ^ nat k" by simp
  have "of_int (2 ^ nat (k - 1)) \<le> (of_int (m - 1) :: rat)" using lo by (simp only: of_int_le_iff)
  also have "\<dots> < 1 / a" unfolding m_def by linarith
  finally have down: "2 ^ nat (k - 1) < 1 / a" by simp
  have low: "pow2 (- k) \<le> a"
  proof -
    have "1 / 2 ^ nat k \<le> a"
      using up assms by (simp add: field_simps)
    then show ?thesis using k1 by (simp add: pow2_def)
  qed
  have high: "a < pow2 (- k + 1)"
  proof -
    have "a < 1 / 2 ^ nat (k - 1)"
      using down assms by (simp add: field_simps)
    moreover have "pow2 (- k + 1) = 1 / 2 ^ nat (k - 1)"
      using k1 by (cases "k = 1") (auto simp add: pow2_def)
    ultimately show ?thesis by simp
  qed
  from low high show ?thesis by (simp add: e)
qed

lemma round_even_close: "\<bar>of_int (round_even r) - r\<bar> \<le> 1 / 2"
proof -
  define d where "d = r - of_int \<lfloor>r\<rfloor>"
  have d: "0 \<le> d" "d < 1" unfolding d_def by linarith+
  have r: "r = of_int \<lfloor>r\<rfloor> + d" by (simp add: d_def)
  have "\<bar>of_int (if d < 1 / 2 then \<lfloor>r\<rfloor> else if 1 / 2 < d then \<lfloor>r\<rfloor> + 1
        else if even \<lfloor>r\<rfloor> then \<lfloor>r\<rfloor> else \<lfloor>r\<rfloor> + 1) - (of_int \<lfloor>r\<rfloor> + d)\<bar> \<le> 1 / 2"
    using d by auto
  then show ?thesis
    unfolding round_even_def Let_def d_def by simp
qed


lemma pow2_powi: "pow2 k = 2 powi k"
  by (simp add: pow2_def power_int_def power_divide inverse_eq_divide)

lemma pow2_mono: "i \<le> j \<Longrightarrow> pow2 i \<le> pow2 j"
  by (simp add: pow2_powi power_int_increasing)

lemma pow2_add: "pow2 (i + j) = pow2 i * pow2 j"
  by (simp add: pow2_powi power_int_add)

lemma ulp_pos: "0 < ulp a"
  by (simp add: ulp_def pow2_pos)

lemma significand_bound:
  assumes "0 < a"
  shows "a / ulp a < 2 ^ 53"
proof -
  define e where "e = max (ilog2 a) (- 1022)"
  have "a < pow2 (ilog2 a + 1)" using ilog2_bounds [OF assms] by simp
  also have "\<dots> \<le> pow2 (e + 1)" by (rule pow2_mono) (simp add: e_def)
  also have "\<dots> = pow2 (53 + (e - 52))" by (simp add: add.commute)
  also have "\<dots> = pow2 53 * pow2 (e - 52)" by (rule pow2_add)
  finally have "a < pow2 53 * ulp a" by (simp add: ulp_def e_def)
  then have "a / ulp a < pow2 53" using ulp_pos [of a] by (simp add: field_simps)
  then show ?thesis by (simp add: pow2_def)
qed

lemma round_even_le:
  assumes "0 \<le> r" and "r < of_int n"
  shows "0 \<le> round_even r \<and> round_even r \<le> n"
proof -
  have "\<lfloor>r\<rfloor> < n" using assms(2) by linarith
  moreover have "0 \<le> \<lfloor>r\<rfloor>" using assms(1) by simp
  ultimately show ?thesis by (auto simp add: round_even_def Let_def)
qed

text \<open>A finite result of \<open>fl\<close> is a double: a significand of at most 53 bits times the
  spacing; and it is within half the spacing of the argument.\<close>

lemma fl_correct:
  assumes "fl q = Fin y"
  shows "\<exists>m. \<bar>m\<bar> \<le> 2 ^ 53 \<and> y = of_int m * ulp \<bar>q\<bar> \<and> \<bar>y - q\<bar> \<le> ulp \<bar>q\<bar> / 2"
proof (cases "q = 0")
  case True
  with assms have "y = 0" by (simp add: fl_def)
  with True ulp_pos [of 0] show ?thesis by (intro exI [of _ 0]) simp
next
  case False
  define a where "a = \<bar>q\<bar>"
  define u where "u = ulp a"
  define m where "m = round_even (a / u)"
  have a: "0 < a" using False by (simp add: a_def)
  have u: "0 < u" by (simp add: u_def ulp_pos)
  have "a / u < of_int (2 ^ 53)" using significand_bound [OF a] by (simp add: u_def)
  moreover have "0 \<le> a / u" using a u by simp
  ultimately have m: "0 \<le> m" "m \<le> 2 ^ 53"
    using round_even_le [of "a / u" "2 ^ 53"] by (simp_all add: m_def)
  have "\<bar>of_int m - a / u\<bar> \<le> 1 / 2" unfolding m_def by (rule round_even_close)
  then have "\<bar>of_int m - a / u\<bar> * u \<le> 1 / 2 * u"
    using u by (intro mult_right_mono) simp_all
  moreover have "\<bar>of_int m - a / u\<bar> * u = \<bar>of_int m * u - a\<bar>"
    using u by (simp add: abs_mult [symmetric] field_simps)
  ultimately have close: "\<bar>of_int m * u - a\<bar> \<le> u / 2" by simp
  from assms False have y: "y = (if 0 < q then of_int m * u else - (of_int m * u))"
    by (auto simp add: fl_def Let_def m_def u_def a_def split: if_splits)
  show ?thesis
  proof (cases "0 < q")
    case True
    with y have y': "y = of_int m * u" by simp
    from True have q: "q = a" by (simp add: a_def)
    from close have "\<bar>y - q\<bar> \<le> u / 2" by (simp only: y' q)
    moreover have "\<bar>m\<bar> \<le> 2 ^ 53" using m by (simp only: abs_of_nonneg)
    ultimately show ?thesis
      using y' unfolding u_def a_def by blast
  next
    case neg: False
    with False have q: "q = - a" by (simp add: a_def)
    from y neg have y': "y = of_int (- m) * u" by simp
    have "y - q = - (of_int m * u - a)" by (simp add: y' q)
    then have "\<bar>y - q\<bar> = \<bar>of_int m * u - a\<bar>" by (simp only: abs_minus)
    with close have "\<bar>y - q\<bar> \<le> u / 2" by simp
    moreover have "\<bar>- m\<bar> \<le> 2 ^ 53" using m by (simp only: abs_minus abs_of_nonneg)
    ultimately show ?thesis
      using y' unfolding u_def a_def by blast
  qed
qed

section \<open>Properties of the conversion to cents\<close>

lemma round_even_nonneg: "0 \<le> r \<Longrightarrow> 0 \<le> round_even r"
  by (auto simp add: round_even_def Let_def)

text \<open>The double nearest to a non-negative value is not negative.\<close>

lemma fl_nonneg:
  assumes "0 \<le> q"
  shows "fl q = PInf \<or> (\<exists>y. 0 \<le> y \<and> fl q = Fin y)"
proof (cases "q = 0")
  case True
  then show ?thesis by (simp add: fl_def)
next
  case False
  with assms have pos: "0 < q" by simp
  define u where "u = ulp \<bar>q\<bar>"
  have "0 < u" unfolding u_def ulp_def by (rule pow2_pos)
  with pos have "0 \<le> \<bar>q\<bar> / u" by simp
  then have "0 \<le> round_even (\<bar>q\<bar> / u)" by (rule round_even_nonneg)
  with \<open>0 < u\<close> have "0 \<le> of_int (round_even (\<bar>q\<bar> / u)) * u" by simp
  with pos show ?thesis
    by (auto simp add: fl_def Let_def u_def)
qed

text \<open>Ties toward positive infinity against ties away from zero: they differ at the
  negative ties, by one.\<close>

lemma floor_half_up:
  "\<lfloor>a + 1 / 2\<rfloor> =
     (if a < 0 \<and> frac a = 1 / 2 then round_half_away a + 1 else round_half_away a)"
  for a :: rat
proof (cases "0 \<le> a")
  case True
  then show ?thesis by (simp add: round_half_away_def)
next
  case False
  define n where "n = \<lfloor>a\<rfloor>"
  define f where "f = a - of_int n"
  have f: "0 \<le> f" "f < 1"
    unfolding f_def n_def by linarith+
  have a: "a = of_int n + f"
    by (simp add: f_def)
  have up: "\<lfloor>a + 1 / 2\<rfloor> = (if f < 1 / 2 then n else n + 1)"
    using f by (auto simp add: a floor_eq_iff)
  have down: "\<lfloor>- a + 1 / 2\<rfloor> = (if f \<le> 1 / 2 then - n else - n - 1)"
    using f by (auto simp add: a floor_eq_iff)
  have "frac a = f"
    by (simp add: frac_def f_def n_def)
  with False up down show ?thesis
    by (auto simp add: round_half_away_def)
qed

lemma Math_round_away:
  "Math_round y = (if negative_tie y then num_succ (rounded_away y) else rounded_away y)"
  by (cases y) (simp_all add: floor_half_up)

lemma times_100:
  "\<exists>y. num_times x (Fin 100) = Some y \<and> (\<not> num_less x (Fin 0) \<longrightarrow> \<not> negative_tie y)"
proof (cases x)
  case (Fin q)
  show ?thesis
  proof (cases "0 \<le> q")
    case True
    then have "0 \<le> q * 100" by simp
    from fl_nonneg [OF this] show ?thesis using Fin by auto
  next
    case False
    then show ?thesis using Fin by simp
  qed
qed simp_all

text \<open>The product is the double product: 0.015 (the double nearest to it) times 100
  is the double 1.5, and the cents are 2.\<close>

lemma toCents_double_product:
  "toCents stub_host (JNum (Fin (1080863910568919 / 72057594037927936))) = Inr (JNum (Fin 2))"
  by code_simp

text \<open>
  C2, as the claim states it, fails for a negative amount: -0.125 times 100 is -12.5,
  which \<open>toCents\<close> maps to -12 and rounding half away from zero to -13.
\<close>

theorem toCents_negative_tie_counterexample:
  "toCents stub_host (JNum (Fin (- (1 / 8)))) = Inr (JNum (Fin (- 12))) \<and>
   num_times (Fin (- (1 / 8))) (Fin 100) = Some (Fin (- (25 / 2))) \<and>
   rounded_away (Fin (- (25 / 2))) = Fin (- 13)"
  by code_simp

text \<open>
  C2, amended.  The conversion to cents of \<open>POST /api/adset_budget\<close> (\<open>toCents\<close> in
  the bridge server, the inline expression in routes.ts) maps a euro amount whose Number is
  \<open>x\<close> to \<open>Math.round(x * 100)\<close>: the product \<open>y\<close>, a double, rounded to the
  nearest integer, a tie going toward positive infinity.  That is \<open>y\<close> rounded half
  away from zero, plus one when \<open>y\<close> is a negative tie; for every non-negative \<open>x\<close>
  it is \<open>y\<close> rounded half away from zero.
\<close>

theorem toCents_rounding:
  assumes "ToNumber h eur = Inr (Some x)"
  shows "\<exists>y. num_times x (Fin 100) = Some y \<and>
        routes_cents h eur = toCents h eur \<and>
        toCents h eur =
          Inr (JNum (if negative_tie y then num_succ (rounded_away y) else rounded_away y)) \<and>
        (\<not> num_less x (Fin 0) \<longrightarrow> toCents h eur = Inr (JNum (rounded_away y)))"
proof -
  from times_100 [of x] obtain y where y: "num_times x (Fin 100) = Some y"
    and tie: "\<not> num_less x (Fin 0) \<longrightarrow> \<not> negative_tie y" by blast
  have cents: "toCents h eur = Inr (JNum (Math_round y))"
    using assms y by (simp add: toCents_def)
  have "routes_cents h eur = Inr (JNum (Math_round y))"
    using assms y by (simp add: routes_cents_def)
  with cents y tie show ?thesis
    by (auto simp add: Math_round_away)
qed

theorem toCents_rounding_witness:
  "ToNumber stub_host (JNum (Fin (1 / 8))) = Inr (Some (Fin (1 / 8))) \<and>
   \<not> num_less (Fin (1 / 8)) (Fin 0) \<and>
   toCents stub_host (JNum (Fin (1 / 8))) = Inr (JNum (Fin 13)) \<and>
   rounded_away (Fin (25 / 2)) = Fin 13"
proof -
  have number: "ToNumber stub_host (JNum (Fin (1 / 8))) = Inr (Some (Fin (1 / 8)))"
    by simp
  have product: "num_times (Fin (1 / 8)) (Fin 100) = Some (Fin (25 / 2))"
    by code_simp
  have away: "rounded_away (Fin (25 / 2)) = Fin 13"
    by code_simp
  have nonneg: "\<not> num_less (Fin (1 / 8)) (Fin 0)"
    by simp
  from toCents_rounding [OF number] product nonneg
  have "toCents stub_host (JNum (Fin (1 / 8))) = Inr (JNum (rounded_away (Fin (25 / 2))))"
    by auto
  with away nonneg number show ?thesis by simp
qed

section \<open>Properties of the API key guard\<close>

lemma str_or_undefined_eq_JStr: "(str_or_undefined x = JStr s) = (x = Some s)"
  by (cases x) simp_all

text \<open>
  C7, as the claim states it, fails: with the secret \<open>s3cret\<close> configured, an OPTIONS
  request to \<open>/api/simulate\<close> with a wrong key passes the guard; and with no secret
  configured, so does a POST with any key.
\<close>

theorem api_key_guard_counterexample:
  "api_key_guard sample_env
     \<lparr> req_method = ''OPTIONS'', req_path = ''/api/simulate'', x_api_key = Some ''wrong'' \<rparr>
     = Next \<and>
   api_key_guard []
     \<lparr> req_method = ''POST'', req_path = ''/api/simulate'', x_api_key = Some ''wrong'' \<rparr>
     = Next"
  by (simp add: api_key_guard_def OPEN_PATHS_def BRIDGE_API_KEY_def trimmed_def getenv_def)

text \<open>
  C7, amended.  When a non-empty secret is configured, the gateway responds 401
  Unauthorized to every request that \<open>cors()\<close> and \<open>express.json()\<close>, mounted before
  the guard, pass on, that is not an OPTIONS request, whose path is not a health-check
  path (\<open>/api/health\<close> and \<open>/healthz\<close>; in the earlier bridge server
  \<open>/api/health\<close> alone) and whose X-API-Key header is not the secret.  For a request
  to \<open>/api/health\<close> the guard calls \<open>next()\<close> whatever the key is: what the gateway
  does with it before its routes is what the two library middlewares do, so it is never
  rejected for a missing or wrong API key.
\<close>

theorem api_key_guard_rejects:
  "(cors req = Next \<and> json req = Next \<and>
      req_path req \<notin> {''/api/health'', ''/healthz''} \<and> req_method req \<noteq> ''OPTIONS'' \<and>
      BRIDGE_API_KEY env = JStr secret \<and> secret \<noteq> [] \<and> x_api_key req \<noteq> Some secret
      \<longrightarrow> before_routes cors json env req
            = Reply (Response 401 (JObj [(''error'', JStr ''Unauthorized'')]))) \<and>
   (cors req = Next \<and> json req = Next \<and>
      req_path req \<noteq> ''/api/health'' \<and> req_method req \<noteq> ''OPTIONS'' \<and>
      legacy_BRIDGE_API_KEY env = JStr secret \<and> secret \<noteq> [] \<and> x_api_key req \<noteq> Some secret
      \<longrightarrow> legacy_before_routes cors json env req
            = Reply (Response 401 (JObj [(''error'', JStr ''Unauthorized'')]))) \<and>
   (req_path req = ''/api/health''
      \<longrightarrow> api_key_guard env req = Next \<and> legacy_api_key_guard env req = Next \<and>
          before_routes cors json env req = and_then (cors req) (json req) \<and>
          legacy_before_routes cors json env req = and_then (cors req) (json req))"
proof (intro conjI impI)
  assume "cors req = Next \<and> json req = Next \<and>
      req_path req \<notin> {''/api/health'', ''/healthz''} \<and> req_method req \<noteq> ''OPTIONS'' \<and>
      BRIDGE_API_KEY env = JStr secret \<and> secret \<noteq> [] \<and> x_api_key req \<noteq> Some secret"
  then show "before_routes cors json env req
      = Reply (Response 401 (JObj [(''error'', JStr ''Unauthorized'')]))"
    by (auto simp add: before_routes_def api_key_guard_def OPEN_PATHS_def unauthorized_def
        Let_def str_or_undefined_eq_JStr)
next
  assume "cors req = Next \<and> json req = Next \<and>
      req_path req \<noteq> ''/api/health'' \<and> req_method req \<noteq> ''OPTIONS'' \<and>
      legacy_BRIDGE_API_KEY env = JStr secret \<and> secret \<noteq> [] \<and> x_api_key req \<noteq> Some secret"
  then show "legacy_before_routes cors json env req
      = Reply (Response 401 (JObj [(''error'', JStr ''Unauthorized'')]))"
    by (auto simp add: legacy_before_routes_def legacy_api_key_guard_def unauthorized_def
        Let_def str_or_undefined_eq_JStr)
next
  assume health: "req_path req = ''/api/health''"
  then show guard: "api_key_guard env req = Next"
    by (simp add: api_key_guard_def OPEN_PATHS_def)
  from health show legacy: "legacy_api_key_guard env req = Next"
    by (simp add: legacy_api_key_guard_def)
  show "before_routes cors json env req = and_then (cors req) (json req)"
    by (cases "cors req"; cases "json req") (simp_all add: before_routes_def guard)
  show "legacy_before_routes cors json env req = and_then (cors req) (json req)"
    by (cases "cors req"; cases "json req") (simp_all add: legacy_before_routes_def legacy)
qed

theorem api_key_guard_rejects_witness:
  "before_routes passes passes sample_env
     \<lparr> req_method = ''POST'', req_path = ''/api/simulate'', x_api_key = Some ''wrong'' \<rparr>
     = Reply (Response 401 (JObj [(''error'', JStr ''Unauthorized'')])) \<and>
   legacy_before_routes passes passes sample_env
     \<lparr> req_method = ''POST'', req_path = ''/api/simulate'', x_api_key = None \<rparr>
     = Reply (Response 401 (JObj [(''error'', JStr ''Unauthorized'')])) \<and>
   before_routes passes passes sample_env
     \<lparr> req_method = ''GET'', req_path = ''/api/health'', x_api_key = None \<rparr> = Next"
proof -
  have key: "BRIDGE_API_KEY sample_env = JStr ''s3cret''"
    by (simp add: BRIDGE_API_KEY_def trimmed_def getenv_def sample_env_def trim_def is_space_def)
  have legacy_key: "legacy_BRIDGE_API_KEY sample_env = JStr ''s3cret''"
    by (simp add: legacy_BRIDGE_API_KEY_def getenv_def sample_env_def)
  from key api_key_guard_rejects [of passes
      "\<lparr> req_method = ''POST'', req_path = ''/api/simulate'', x_api_key = Some ''wrong'' \<rparr>"
      passes sample_env "''s3cret''"]
  have "before_routes passes passes sample_env
     \<lparr> req_method = ''POST'', req_path = ''/api/simulate'', x_api_key = Some ''wrong'' \<rparr>
     = Reply (Response 401 (JObj [(''error'', JStr ''Unauthorized'')]))"
    by (simp add: passes_def)
  moreover from legacy_key api_key_guard_rejects [of passes
      "\<lparr> req_method = ''POST'', req_path = ''/api/simulate'', x_api_key = None \<rparr>"
      passes sample_env "''s3cret''"]
  have "legacy_before_routes passes passes sample_env
     \<lparr> req_method = ''POST'', req_path = ''/api/simulate'', x_api_key = None \<rparr>
     = Reply (Response 401 (JObj [(''error'', JStr ''Unauthorized'')]))"
    by (simp add: passes_def)
  moreover from api_key_guard_rejects [of passes
      "\<lparr> req_method = ''GET'', req_path = ''/api/health'', x_api_key = None \<rparr>"
      passes sample_env "''s3cret''"]
  have "before_routes passes passes sample_env
     \<lparr> req_method = ''GET'', req_path = ''/api/health'', x_api_key = None \<rparr> = Next"
    by (simp add: passes_def)
  ultimately show ?thesis by simp
qed

text \<open>
  C9.  When the variable \<open>BRIDGE_API_KEY\<close> is unset or empty, the guard lets every
  request pass, to every path and with any or no X-API-Key header: it never answers
  401.  The same holds of the guard of the earlier bridge server.
\<close>

theorem api_key_guard_open:
  assumes "getenv env ''BRIDGE_API_KEY'' = None \<or> getenv env ''BRIDGE_API_KEY'' = Some []"
  shows "api_key_guard env req = Next \<and> legacy_api_key_guard env req = Next"
  using assms
  by (auto simp add: api_key_guard_def legacy_api_key_guard_def BRIDGE_API_KEY_def
      legacy_BRIDGE_API_KEY_def trimmed_def trim_def Let_def)

theorem api_key_guard_open_witness:
  "api_key_guard []
     \<lparr> req_method = ''POST'', req_path = ''/api/adset_budget'', x_api_key = None \<rparr> = Next \<and>
   api_key_guard [(''BRIDGE_API_KEY'', '''')]
     \<lparr> req_method = ''POST'', req_path = ''/api/adset_budget'', x_api_key = Some ''k'' \<rparr> = Next"
proof -
  have unset: "getenv [] ''BRIDGE_API_KEY'' = None"
    by (simp add: getenv_def)
  have empty: "getenv [(''BRIDGE_API_KEY'', '''')] ''BRIDGE_API_KEY'' = Some []"
    by (simp add: getenv_def)
  from unset api_key_guard_open [of "[]"
      "\<lparr> req_method = ''POST'', req_path = ''/api/adset_budget'', x_api_key = None \<rparr>"]
  have "api_key_guard []
     \<lparr> req_method = ''POST'', req_path = ''/api/adset_budget'', x_api_key = None \<rparr> = Next"
    by simp
  moreover from empty api_key_guard_open [of "[(''BRIDGE_API_KEY'', '''')]"
      "\<lparr> req_method = ''POST'', req_path = ''/api/adset_budget'', x_api_key = Some ''k'' \<rparr>"]
  have "api_key_guard [(''BRIDGE_API_KEY'', '''')]
     \<lparr> req_method = ''POST'', req_path = ''/api/adset_budget'', x_api_key = Some ''k'' \<rparr> = Next"
    by simp
  ultimately show ?thesis by simp
qed

section \<open>Properties of the forwarding endpoints\<close>

lemma sample_env_essential: "hasEssentialEnv sample_env"
  by (simp add: hasEssentialEnv_def AD_ACCOUNT_ID_def TOKEN_def trimmed_def getenv_def
      sample_env_def trim_def is_space_def or_else_def)

text \<open>
  C3, as the claim states it, fails for the bridge server: with its environment
  set and a Graph API that answers, a body without \<open>since\<close> and \<open>until\<close> is
  forwarded and answered with status 200.
\<close>

theorem insights_without_dates_counterexample:
  "insights sample_env stub_host (JObj [(''level'', JStr ''campaign'')])
     = Response 200 (JObj [])"
  using sample_env_essential
  by (simp add: insights_def ensureEnv_def Let_def stub_host_def)

text \<open>
  C3, amended.  The gateway of routes.ts answers every \<open>POST /api/insights\<close> body in
  which \<open>since\<close> or \<open>until\<close> is missing (or otherwise falsy) with status 400 and the
  error \<open>since and until dates are required\<close>, whatever the other fields and the
  configuration are.  The bridge server does not require them: once its environment is
  set, it forwards such a body to the Graph API in one GET call on the insights of the
  ad account, with the bearer token and the parameters \<open>level\<close> (\<open>ad\<close> by default),
  \<open>time_increment\<close> (\<open>1\<close> by default), \<open>fields\<close> (the default list when the body
  names none), \<open>breakdowns\<close> when given, \<open>date_preset\<close> when given, and no
  \<open>time_range\<close>; it relays the outcome, the data with status 200 or the error with
  status 400.
\<close>

theorem insights_dates_required:
  assumes "\<not> truthy (property (or_empty body) ''since'') \<or>
           \<not> truthy (property (or_empty body) ''until'')"
  shows "routes_insights env h body
           = Response 400 (JObj [(''error'', JStr ''since and until dates are required'')]) \<and>
         (hasEssentialEnv env' \<longrightarrow>
            insights env' h body =
              (case graph h (Call ''GET''
                      (BASE env' (config_text (AD_ACCOUNT_ID env') @ ''/insights''))
                      ([(''level'', default_to (JStr ''ad'') (property (or_empty body) ''level'')),
                        (''time_increment'',
                           default_to (JStr ''1'') (property (or_empty body) ''time_increment'')),
                        (''fields'',
                           or_else (property (or_empty body) ''fields'') (JStr default_fields))]
                       @ (if truthy (property (or_empty body) ''breakdowns'')
                          then [(''breakdowns'', property (or_empty body) ''breakdowns'')]
                          else [])
                       @ (if truthy (property (or_empty body) ''date_preset'')
                          then [(''date_preset'', property (or_empty body) ''date_preset'')]
                          else []))
                      (authHeader env')) of
                 Inr data \<Rightarrow> Response 200 data
               | Inl e \<Rightarrow> Response 400 (JObj [(''error'', e)])))"
proof (intro conjI impI)
  show "routes_insights env h body
      = Response 400 (JObj [(''error'', JStr ''since and until dates are required'')])"
    using assms by (auto simp add: routes_insights_def Let_def)
next
  assume env: "hasEssentialEnv env'"
  have no_range: "\<not> (truthy (property (or_empty body) ''since'') \<and>
      truthy (property (or_empty body) ''until''))"
    using assms by blast
  show "insights env' h body =
      (case graph h (Call ''GET''
              (BASE env' (config_text (AD_ACCOUNT_ID env') @ ''/insights''))
              ([(''level'', default_to (JStr ''ad'') (property (or_empty body) ''level'')),
                (''time_increment'',
                   default_to (JStr ''1'') (property (or_empty body) ''time_increment'')),
                (''fields'',
                   or_else (property (or_empty body) ''fields'') (JStr default_fields))]
               @ (if truthy (property (or_empty body) ''breakdowns'')
                  then [(''breakdowns'', property (or_empty body) ''breakdowns'')]
                  else [])
               @ (if truthy (property (or_empty body) ''date_preset'')
                  then [(''date_preset'', property (or_empty body) ''date_preset'')]
                  else []))
              (authHeader env')) of
         Inr data \<Rightarrow> Response 200 data
       | Inl e \<Rightarrow> Response 400 (JObj [(''error'', e)]))"
    using env no_range by (auto simp add: insights_def ensureEnv_def Let_def)
qed

theorem insights_dates_required_witness:
  "routes_insights sample_env stub_host (JObj [(''since'', JStr ''2025-01-01'')])
     = Response 400 (JObj [(''error'', JStr ''since and until dates are required'')]) \<and>
   insights sample_env stub_host
       (JObj [(''since'', JStr ''2025-01-01''), (''date_preset'', JStr ''last_7d'')])
     = Response 200 (JObj [])"
proof -
  have "\<not> truthy (property (or_empty (JObj [(''since'', JStr ''2025-01-01'')])) ''since'') \<or>
        \<not> truthy (property (or_empty (JObj [(''since'', JStr ''2025-01-01'')])) ''until'')"
    by (simp add: or_empty_def)
  from insights_dates_required [OF this, of sample_env stub_host sample_env]
  have routes: "routes_insights sample_env stub_host (JObj [(''since'', JStr ''2025-01-01'')])
     = Response 400 (JObj [(''error'', JStr ''since and until dates are required'')])"
    by simp
  have "\<not> truthy (property (or_empty
          (JObj [(''since'', JStr ''2025-01-01''), (''date_preset'', JStr ''last_7d'')])) ''since'') \<or>
        \<not> truthy (property (or_empty
          (JObj [(''since'', JStr ''2025-01-01''), (''date_preset'', JStr ''last_7d'')])) ''until'')"
    by (simp add: or_empty_def)
  from insights_dates_required [OF this, of sample_env stub_host sample_env]
    sample_env_essential
  have "insights sample_env stub_host
       (JObj [(''since'', JStr ''2025-01-01''), (''date_preset'', JStr ''last_7d'')])
     = Response 200 (JObj [])"
    by (simp add: stub_host_def)
  with routes show ?thesis by simp
qed

text \<open>
  C10.  The gateway of routes.ts answers a \<open>POST /api/adset_budget\<close> body whose
  \<open>daily_budget_eur\<close> is 0, or any other falsy value, with status 400 and the error
  \<open>adset_id and daily_budget_eur are required\<close>, although the field is present.
  The bridge server tests the field against \<open>undefined\<close> only: once its environment is
  set, a body with a truthy \<open>adset_id\<close> that has a string (every string has, an object
  with a \<open>toString\<close> property of its own has none) and a \<open>daily_budget_eur\<close> of 0 is
  forwarded in one POST call on that ad set with a \<open>daily_budget\<close> of 0, and the
  outcome of the call is relayed.
\<close>

theorem adset_budget_zero:
  "(\<not> truthy (property (or_empty body) ''daily_budget_eur'') \<longrightarrow>
      routes_adset_budget env h body
        = Response 400 (JObj [(''error'', JStr ''adset_id and daily_budget_eur are required'')])) \<and>
   (hasEssentialEnv env \<and> truthy (property (or_empty body) ''adset_id'') \<and>
      ToString h (property (or_empty body) ''adset_id'') = Inr path \<and>
      property (or_empty body) ''daily_budget_eur'' = JNum (Fin 0) \<longrightarrow>
      adset_budget env h body =
        (case graph h (Call ''POST'' (BASE env path)
                [(''daily_budget'', JNum (Fin 0))] (authHeader env)) of
           Inr data \<Rightarrow> Response 200 (JObj [(''updated'', JBool True), (''meta'', data)])
         | Inl e \<Rightarrow> Response 400 (JObj [(''error'', e)])))"
proof -
  have "\<lfloor>1 / 2 :: rat\<rfloor> = 0"
    by (simp add: floor_eq_iff)
  then have zero: "toCents h (JNum (Fin 0)) = Inr (JNum (Fin 0))"
    by (simp add: toCents_def fl_def)
  show ?thesis
    by (auto simp add: routes_adset_budget_def adset_budget_def ensureEnv_def Let_def zero)
qed

theorem adset_budget_zero_witness:
  "routes_adset_budget sample_env stub_host
       (JObj [(''adset_id'', JStr ''238''), (''daily_budget_eur'', JNum (Fin 0))])
     = Response 400 (JObj [(''error'', JStr ''adset_id and daily_budget_eur are required'')]) \<and>
   adset_budget sample_env stub_host
       (JObj [(''adset_id'', JStr ''238''), (''daily_budget_eur'', JNum (Fin 0))])
     = Response 200 (JObj [(''updated'', JBool True), (''meta'', JObj [])])"
  using sample_env_essential adset_budget_zero [of
      "JObj [(''adset_id'', JStr ''238''), (''daily_budget_eur'', JNum (Fin 0))]"
      sample_env stub_host "''238''"]
  by (simp add: or_empty_def stub_host_def)

text \<open>An \<open>adset_id\<close> without a string: the template literal throws, the \<open>catch\<close>
  answers with the message of the TypeError, and no call is made.\<close>

lemma adset_budget_thrown:
  "adset_budget sample_env stub_host
       (JObj [(''adset_id'', JObj [(''toString'', JNum (Fin 1))]),
              (''daily_budget_eur'', JNum (Fin 0))])
     = Response 400 (JObj [(''error'', JStr ''Cannot convert object to primitive value'')])"
proof -
  have "\<lfloor>1 / 2 :: rat\<rfloor> = 0"
    by (simp add: floor_eq_iff)
  then have "toCents stub_host (JNum (Fin 0)) = Inr (JNum (Fin 0))"
    by (simp add: toCents_def fl_def)
  with sample_env_essential show ?thesis
    by (simp add: adset_budget_def ensureEnv_def or_empty_def caught_def stub_host_def)
qed

end
